theory Spec2Isabelle
  imports Complex_Main "HOL-Library.Word" "HOL-Library.Sublist"
begin

section \<open>Speech-to-text streaming service (ovms/scripts/speech-to-text/whisper.py)\<close>

text \<open>
  A shallow embedding of the streaming segmentation and session-buffering engine of
  \<^verbatim>\<open>whisper.py\<close>. Conventions:
  \<^item> Python \<^verbatim>\<open>bytes\<close> are lists of 8-bit words; an int16 sample is a 16-bit word read
    with \<open>sint\<close>; Python integers are \<open>int\<close>.
  \<^item> Python floats (durations, timestamps, thresholds) are modelled as exact reals: the
    rounding of binary floating point is not part of the model.
  \<^item> Strings are \<open>char list\<close>; a character stands for one code point below 256.
  \<^item> The external collaborators (WebRTC VAD, the Whisper pipeline, librosa, the float32
    decoding of numpy) are fields of a record \<open>collaborators\<close> that every function
    using them takes as its first argument.
  \<^item> A raised exception is \<open>Inl\<close> of an \<open>error\<close>; logging (\<^verbatim>\<open>print\<close>) is left out.
\<close>

subsection \<open>Configuration constants\<close>

definition TARGET_SAMPLE_RATE :: int where
  "TARGET_SAMPLE_RATE = 16000"

definition FRAME_DURATION_MS :: int where
  "FRAME_DURATION_MS = 30"

text \<open>Python's \<^verbatim>\<open>int(x)\<close> on a float: truncation towards zero.\<close>

definition py_int :: "real \<Rightarrow> int" where
  "py_int x = (if 0 \<le> x then \<lfloor>x\<rfloor> else \<lceil>x\<rceil>)"

definition VAD_FRAME_SIZE :: int where
  "VAD_FRAME_SIZE = py_int (real_of_int (TARGET_SAMPLE_RATE * FRAME_DURATION_MS) / 1000)"

definition HALLUCINATE_THRESHOLD :: real where
  "HALLUCINATE_THRESHOLD = 100"

definition TARGET_BUFFER_LENGTH :: real where
  "TARGET_BUFFER_LENGTH = 3"

subsection \<open>Errors\<close>

datatype error =
    ValueError string
  | ZeroDivisionError
  | OverflowError
  | BufferSizeError     \<comment> \<open>numpy: buffer size must be a multiple of element size\<close>
  | VadInitError        \<comment> \<open>\<^verbatim>\<open>webrtcvad.Vad(mode)\<close> refused the mode\<close>
  | EngineError         \<comment> \<open>the transcription pipeline raised\<close>
  | AudioLoadError      \<comment> \<open>\<^verbatim>\<open>librosa.load\<close> raised\<close>

subsection \<open>Rendering of caption times\<close>

text \<open>
  \<^verbatim>\<open>datetime.timedelta\<close>, normalised as Python keeps it:
  \<open>0 \<le> seconds < 86400\<close> and \<open>0 \<le> microseconds < 1000000\<close>; only \<open>days\<close> carries a sign.
\<close>

record timedelta =
  days :: int
  seconds :: int
  microseconds :: int

text \<open>Rounding to the nearest integer, ties to the even one (Python's \<^verbatim>\<open>round\<close>).\<close>

definition round_half_even :: "real \<Rightarrow> int" where
  "round_half_even x =
     (let f = \<lfloor>x\<rfloor>; d = x - of_int f
      in if d < 1 / 2 then f
         else if 1 / 2 < d then f + 1
         else if even f then f else f + 1)"

text \<open>
  \<^verbatim>\<open>timedelta(seconds=x)\<close>: the value is rounded to whole microseconds and normalised;
  more than 999999999 days in either direction raises \<^verbatim>\<open>OverflowError\<close>.
\<close>

definition timedelta_of_seconds :: "real \<Rightarrow> error + timedelta" where
  "timedelta_of_seconds x =
     (let us = round_half_even (x * 1000000);
          d = us div 86400000000;
          r = us mod 86400000000
      in if \<bar>d\<bar> > 999999999 then Inl OverflowError
         else Inr \<lparr>days = d, seconds = r div 1000000, microseconds = r mod 1000000\<rparr>)"

definition digit_char :: "nat \<Rightarrow> char" where
  "digit_char d = char_of (48 + d)"

fun show_nat :: "nat \<Rightarrow> string" where
  "show_nat n = (if n < 10 then [digit_char n] else show_nat (n div 10) @ [digit_char (n mod 10)])"

declare show_nat.simps [simp del]

text \<open>The format specification \<^verbatim>\<open>0wd\<close>: decimal, zero-padded to width \<open>w\<close>, sign first.\<close>

definition format_0d :: "nat \<Rightarrow> int \<Rightarrow> string" where
  "format_0d w n =
     (if n < 0
      then CHR ''-'' # replicate (w - 1 - length (show_nat (nat (- n)))) CHR ''0'' @ show_nat (nat (- n))
      else replicate (w - length (show_nat (nat n))) CHR ''0'' @ show_nat (nat n))"

definition format_timedelta :: "timedelta \<Rightarrow> string" where
  "format_timedelta td =
     (let hours = seconds td div 3600;
          minutes = (seconds td mod 3600) div 60;
          secs = seconds td mod 60;
          milliseconds = microseconds td div 1000
      in format_0d 2 hours @ '':'' @ format_0d 2 minutes @ '':'' @ format_0d 2 secs
           @ '','' @ format_0d 3 milliseconds)"

record chunk =
  chunk_text :: string
  start_ts :: real
  end_ts :: real

text \<open>\<^verbatim>\<open>str.strip()\<close> on code points below 256.\<close>

definition py_isspace :: "char \<Rightarrow> bool" where
  "py_isspace c \<longleftrightarrow> of_char c \<in> {9, 10, 11, 12, 13, 28, 29, 30, 31, 32, 133, 160 :: nat}"

definition strip :: "string \<Rightarrow> string" where
  "strip s = rev (dropWhile py_isspace (rev (dropWhile py_isspace s)))"

definition srt_entry :: "nat \<Rightarrow> chunk \<Rightarrow> real \<Rightarrow> error + string" where
  "srt_entry i c time_offset =
     (case timedelta_of_seconds (start_ts c + time_offset) of
        Inl e \<Rightarrow> Inl e
      | Inr start_time \<Rightarrow>
          (case timedelta_of_seconds (end_ts c + time_offset) of
             Inl e \<Rightarrow> Inl e
           | Inr end_time \<Rightarrow>
               Inr (show_nat i @ [CHR 0x0A]
                    @ format_timedelta start_time @ '' --> '' @ format_timedelta end_time @ [CHR 0x0A]
                    @ strip (chunk_text c) @ [CHR 0x0A])))"

fun srt_entries :: "nat \<Rightarrow> chunk list \<Rightarrow> real \<Rightarrow> error + string list" where
  "srt_entries i [] time_offset = Inr []"
| "srt_entries i (c # cs) time_offset =
     (case srt_entry i c time_offset of
        Inl e \<Rightarrow> Inl e
      | Inr entry \<Rightarrow>
          (case srt_entries (Suc i) cs time_offset of
             Inl e \<Rightarrow> Inl e
           | Inr rest \<Rightarrow> Inr (entry # rest)))"

fun join_newline :: "string list \<Rightarrow> string" where
  "join_newline [] = []"
| "join_newline [s] = s"
| "join_newline (s # t # ss) = s @ [CHR 0x0A] @ join_newline (t # ss)"

definition create_srt_content :: "chunk list \<Rightarrow> real \<Rightarrow> error + string" where
  "create_srt_content chunks time_offset =
     (case srt_entries 1 chunks time_offset of
        Inl e \<Rightarrow> Inl e
      | Inr entries \<Rightarrow> Inr (join_newline entries))"

subsection \<open>Python slicing\<close>

text \<open>
  \<^verbatim>\<open>xs[i:j]\<close> and \<^verbatim>\<open>xs[i:]\<close>: a negative index counts from the end, and every index is
  clamped to the sequence.
\<close>

definition py_index :: "nat \<Rightarrow> int \<Rightarrow> nat" where
  "py_index n i = (if i < 0 then nat (max 0 (int n + i)) else min n (nat i))"

definition py_slice :: "'a list \<Rightarrow> int \<Rightarrow> int \<Rightarrow> 'a list" where
  "py_slice xs i j =
     (let a = py_index (length xs) i; b = py_index (length xs) j
      in take (b - a) (drop a xs))"

definition py_slice_from :: "'a list \<Rightarrow> int \<Rightarrow> 'a list" where
  "py_slice_from xs i = drop (py_index (length xs) i) xs"

subsection \<open>PCM data\<close>

type_synonym bytes = "8 word list"
type_synonym int16 = "16 word"

text \<open>
  One transcribed span: the float32 samples handed to the engine, with the start and
  end time in seconds relative to the buffer it was cut from.
\<close>

type_synonym segment = "real list \<times> real \<times> real"

text \<open>
  The external collaborators. \<open>None\<close> stands for a raised exception.
  \<^item> \<open>vad_create mode\<close>: whether \<^verbatim>\<open>webrtcvad.Vad(mode)\<close> returns;
  \<^item> \<open>vad_is_speech mode frame sample_rate\<close>: \<^verbatim>\<open>Vad.is_speech\<close> on one frame;
  \<^item> \<open>generate audio language\<close>: \<^verbatim>\<open>WhisperPipeline.generate\<close>, the chunks with
    timestamps relative to the start of \<open>audio\<close>;
  \<^item> \<open>resample audio orig_sr\<close>: \<^verbatim>\<open>librosa.resample\<close> to 16 kHz;
  \<^item> \<open>float32_of_bytes\<close>: the value of four bytes read as a float32;
  \<^item> \<open>astype_int16\<close>: numpy's conversion of a float to int16;
  \<^item> \<open>load_audio\<close>: \<^verbatim>\<open>librosa.load\<close> of an encoded file at 16 kHz.
\<close>

record collaborators =
  vad_create :: "int \<Rightarrow> bool"
  vad_is_speech :: "int \<Rightarrow> int16 list \<Rightarrow> int \<Rightarrow> bool option"
  generate :: "real list \<Rightarrow> string \<Rightarrow> chunk list option"
  resample :: "real list \<Rightarrow> int \<Rightarrow> real list"
  float32_of_bytes :: "bytes \<Rightarrow> real"
  astype_int16 :: "real \<Rightarrow> int16"
  load_audio :: "bytes \<Rightarrow> real list option"

text \<open>\<^verbatim>\<open>np.frombuffer(data, dtype=np.int16)\<close>, little-endian.\<close>

fun int16_items :: "bytes \<Rightarrow> int16 list" where
  "int16_items (lo # hi # rest) = word_of_nat (unat lo + 256 * unat hi) # int16_items rest"
| "int16_items _ = []"

definition frombuffer_int16 :: "bytes \<Rightarrow> error + int16 list" where
  "frombuffer_int16 data =
     (if length data mod 2 \<noteq> 0 then Inl BufferSizeError else Inr (int16_items data))"

text \<open>\<^verbatim>\<open>np.frombuffer(data, dtype=np.float32)\<close>.\<close>

fun float32_items :: "collaborators \<Rightarrow> bytes \<Rightarrow> real list" where
  "float32_items env (a # b # c # d # rest) = float32_of_bytes env [a, b, c, d] # float32_items env rest"
| "float32_items env _ = []"

definition frombuffer_float32 :: "collaborators \<Rightarrow> bytes \<Rightarrow> error + real list" where
  "frombuffer_float32 env data =
     (if length data mod 4 \<noteq> 0 then Inl BufferSizeError else Inr (float32_items env data))"

text \<open>\<^verbatim>\<open>x.astype(np.float32) / 32768.0\<close> on int16 samples.\<close>

definition int16_to_float :: "int16 list \<Rightarrow> real list" where
  "int16_to_float xs = map (\<lambda>x. real_of_int (sint x) / 32768) xs"

text \<open>
  \<^verbatim>\<open>process_pcm_data\<close> on \<^verbatim>\<open>bytes\<close> (the only kind of input the service passes); the
  array is one-dimensional, so the multi-channel branch is not taken.
\<close>

definition process_pcm_data :: "collaborators \<Rightarrow> bytes \<Rightarrow> int \<Rightarrow> bool \<Rightarrow> error + real list" where
  "process_pcm_data env pcm_data sample_rate is_int16 =
     (case (if is_int16 then map_sum id int16_to_float (frombuffer_int16 pcm_data)
            else frombuffer_float32 env pcm_data) of
        Inl e \<Rightarrow> Inl e
      | Inr pcm \<Rightarrow>
          Inr (if sample_rate \<noteq> TARGET_SAMPLE_RATE then resample env pcm sample_rate else pcm))"

text \<open>\<^verbatim>\<open>calculate_pcm_duration\<close> on \<^verbatim>\<open>bytes\<close>, and on an array of samples.\<close>

definition calculate_pcm_duration :: "bytes \<Rightarrow> int \<Rightarrow> bool \<Rightarrow> error + real" where
  "calculate_pcm_duration pcm_data sample_rate is_int16 =
     (let num_samples = (if is_int16 then int (length pcm_data) div 2 else int (length pcm_data) div 4)
      in if sample_rate = 0 then Inl ZeroDivisionError
         else Inr (real_of_int num_samples / real_of_int sample_rate))"

definition calculate_array_duration :: "'a list \<Rightarrow> int \<Rightarrow> error + real" where
  "calculate_array_duration pcm_data sample_rate =
     (if sample_rate = 0 then Inl ZeroDivisionError
      else Inr (real (length pcm_data) / real_of_int sample_rate))"

definition check_buffer_status :: "bytes \<Rightarrow> int \<Rightarrow> bool \<Rightarrow> real \<Rightarrow> error + real \<times> bool" where
  "check_buffer_status buffer_data sample_rate is_int16 target_length =
     (case calculate_pcm_duration buffer_data sample_rate is_int16 of
        Inl e \<Rightarrow> Inl e
      | Inr buffer_duration \<Rightarrow> Inr (buffer_duration, target_length \<le> buffer_duration))"

subsection \<open>The enhanced VAD processor\<close>

record vad_processor =
  vp_sample_rate :: int
  vad_frame_size :: int
  vad_mode :: int
  min_speech_frames :: int
  min_silence_frames :: int
  speech_pad_frames :: int
  hallucinate_threshold :: real

text \<open>
  \<^verbatim>\<open>EnhancedVadProcessor.__init__\<close>; the three durations are in milliseconds and are
  converted to whole frames by truncation.
\<close>

definition EnhancedVadProcessor ::
  "collaborators \<Rightarrow> int \<Rightarrow> int \<Rightarrow> int \<Rightarrow> real \<Rightarrow> real \<Rightarrow> real \<Rightarrow> real \<Rightarrow> error + vad_processor" where
  "EnhancedVadProcessor env sample_rate frame_size mode min_speech_duration_ms
       min_silence_duration_ms speech_pad_ms threshold =
     (if \<not> vad_create env mode then Inl VadInitError
      else Inr \<lparr>vp_sample_rate = sample_rate,
                vad_frame_size = frame_size,
                vad_mode = mode,
                min_speech_frames = py_int (min_speech_duration_ms / real_of_int FRAME_DURATION_MS),
                min_silence_frames = py_int (min_silence_duration_ms / real_of_int FRAME_DURATION_MS),
                speech_pad_frames = py_int (speech_pad_ms / real_of_int FRAME_DURATION_MS),
                hallucinate_threshold = threshold\<rparr>)"

text \<open>The processor with the default durations (250, 500 and 400 ms).\<close>

definition default_vad_processor :: "collaborators \<Rightarrow> int \<Rightarrow> int \<Rightarrow> int \<Rightarrow> real \<Rightarrow> error + vad_processor" where
  "default_vad_processor env sample_rate frame_size mode threshold =
     EnhancedVadProcessor env sample_rate frame_size mode 250 500 400 threshold"

text \<open>\<^verbatim>\<open>np.abs\<close> on int16 wraps at the smallest value.\<close>

definition abs_int16 :: "int16 \<Rightarrow> int16" where
  "abs_int16 x = (if sint x < 0 then - x else x)"

text \<open>
  \<^verbatim>\<open>_is_audio_loud_enough\<close>: the mean of an empty array is NaN, and every comparison
  with NaN is false.
\<close>

definition is_audio_loud_enough :: "vad_processor \<Rightarrow> int16 list \<Rightarrow> bool" where
  "is_audio_loud_enough vp audio_np \<longleftrightarrow>
     audio_np \<noteq> [] \<and>
     hallucinate_threshold vp
       < real_of_int (sum_list (map (\<lambda>x. sint (abs_int16 x)) audio_np)) / real (length audio_np)"

text \<open>\<^verbatim>\<open>process_frame\<close>: a failure of the classifier counts as non-speech.\<close>

definition process_frame :: "collaborators \<Rightarrow> vad_processor \<Rightarrow> int16 list \<Rightarrow> bool" where
  "process_frame env vp frame_data =
     (case vad_is_speech env (vad_mode vp) frame_data (vp_sample_rate vp) of
        None \<Rightarrow> False
      | Some b \<Rightarrow> b)"

text \<open>The state variables of the processor (\<^verbatim>\<open>reset_state\<close>).\<close>

record vad_state =
  is_speech :: bool
  silence_frames :: int
  speech_frame_count :: int
  speech_start_frame :: int

definition reset_state :: vad_state where
  "reset_state = \<lparr>is_speech = False, silence_frames = 0, speech_frame_count = 0, speech_start_frame = 0\<rparr>"

text \<open>
  One iteration of the \<^verbatim>\<open>while i < frame_count\<close> loop of \<^verbatim>\<open>segment_audio\<close>, on frame
  \<open>i\<close> with classification \<open>sp\<close>; the second component is \<^verbatim>\<open>speech_segments_indices\<close>.
\<close>

definition vad_frame_step ::
  "vad_processor \<Rightarrow> int \<Rightarrow> bool \<Rightarrow> vad_state \<times> (int \<times> int) list \<Rightarrow> vad_state \<times> (int \<times> int) list" where
  "vad_frame_step vp i sp acc =
     (let st = fst acc; segs = snd acc
      in if \<not> is_speech st \<and> sp then
           (st\<lparr>is_speech := True,
               speech_start_frame := max 0 (i - speech_pad_frames vp),
               speech_frame_count := 1,
               silence_frames := 0\<rparr>, segs)
         else if is_speech st then
           (let st1 = (if sp then st\<lparr>speech_frame_count := speech_frame_count st + 1, silence_frames := 0\<rparr>
                       else st\<lparr>silence_frames := silence_frames st + 1\<rparr>)
            in if min_silence_frames vp \<le> silence_frames st1 then
                 (st1\<lparr>is_speech := False, speech_frame_count := 0, silence_frames := 0\<rparr>,
                  if min_speech_frames vp \<le> speech_frame_count st1
                  then segs @ [(speech_start_frame st1, i - silence_frames st1 + 1)]
                  else segs)
               else (st1, segs))
         else (st, segs))"

fun vad_loop ::
  "vad_processor \<Rightarrow> int \<Rightarrow> bool list \<Rightarrow> vad_state \<times> (int \<times> int) list \<Rightarrow> vad_state \<times> (int \<times> int) list" where
  "vad_loop vp i [] acc = acc"
| "vad_loop vp i (sp # rest) acc = vad_loop vp (i + 1) rest (vad_frame_step vp i sp acc)"

text \<open>
  The index pairs after the loop and after the handling of a segment still open at the
  end of the buffer.
\<close>

definition speech_segments_indices :: "vad_processor \<Rightarrow> bool list \<Rightarrow> (int \<times> int) list" where
  "speech_segments_indices vp is_speech_frames =
     (let acc = vad_loop vp 0 is_speech_frames (reset_state, []);
          st = fst acc; segs = snd acc
      in if is_speech st \<and> min_speech_frames vp \<le> speech_frame_count st
         then segs @ [(speech_start_frame st, int (length is_speech_frames))]
         else segs)"

definition frame_timestamp :: "int \<times> int \<Rightarrow> real \<times> real" where
  "frame_timestamp se =
     (real_of_int (fst se * FRAME_DURATION_MS) / 1000, real_of_int (snd se * FRAME_DURATION_MS) / 1000)"

text \<open>The frames of a buffer: \<^verbatim>\<open>len(audio_data) // vad_frame_size\<close> whole frames.\<close>

definition split_frames :: "vad_processor \<Rightarrow> int16 list \<Rightarrow> int16 list list" where
  "split_frames vp audio_data =
     (let fs = vad_frame_size vp; frame_count = int (length audio_data) div fs
      in map (\<lambda>i. py_slice audio_data (int i * fs) ((int i + 1) * fs)) [0 ..< nat frame_count])"

text \<open>
  \<^verbatim>\<open>segment_audio(audio_data, return_timestamps=True)\<close>: the segments and their
  timestamps. Without a detected segment the whole buffer is returned.
\<close>

definition segment_audio ::
  "collaborators \<Rightarrow> vad_processor \<Rightarrow> int16 list \<Rightarrow> error + real list list \<times> (real \<times> real) list" where
  "segment_audio env vp audio_data =
     (if vad_frame_size vp = 0 then Inl ZeroDivisionError
      else
        let is_speech_frames = map (process_frame env vp) (split_frames vp audio_data);
            indices = speech_segments_indices vp is_speech_frames;
            timestamps = map frame_timestamp indices;
            segments =
              map (\<lambda>(start_frame, end_frame).
                     int16_to_float
                       (py_slice audio_data (start_frame * vad_frame_size vp)
                          (min (end_frame * vad_frame_size vp) (int (length audio_data)))))
                  indices
        in if segments = [] then
             (if vp_sample_rate vp = 0 then Inl ZeroDivisionError
              else Inr ([int16_to_float audio_data],
                        [(0, real (length audio_data) / real_of_int (vp_sample_rate vp))]))
           else Inr (segments, timestamps))"

text \<open>\<^verbatim>\<open>process_audio\<close> with the callback \<^verbatim>\<open>process_segment\<close> of \<^verbatim>\<open>process_with_vad\<close>.\<close>

definition process_segment :: "collaborators \<Rightarrow> int \<Rightarrow> real list \<Rightarrow> real \<Rightarrow> real \<Rightarrow> segment" where
  "process_segment env sample_rate seg start_time end_time =
     (if sample_rate \<noteq> TARGET_SAMPLE_RATE then resample env seg sample_rate else seg,
      start_time, end_time)"

definition process_audio :: "collaborators \<Rightarrow> vad_processor \<Rightarrow> int16 list \<Rightarrow> int \<Rightarrow> error + segment list" where
  "process_audio env vp audio_data sample_rate =
     (case segment_audio env vp audio_data of
        Inl e \<Rightarrow> Inl e
      | Inr (segments, timestamps) \<Rightarrow>
          Inr (map (\<lambda>(seg, (start_time, end_time)). process_segment env sample_rate seg start_time end_time)
                 (zip segments timestamps)))"

text \<open>The buffer returned whole, as one segment from 0 to its duration at 16 kHz.\<close>

definition whole_buffer_segment :: "collaborators \<Rightarrow> bytes \<Rightarrow> int \<Rightarrow> bool \<Rightarrow> error + segment list" where
  "whole_buffer_segment env pcm_data sample_rate is_int16 =
     (case process_pcm_data env pcm_data sample_rate is_int16 of
        Inl e \<Rightarrow> Inl e
      | Inr processed_audio \<Rightarrow>
          Inr [(processed_audio, 0, real (length processed_audio) / real_of_int TARGET_SAMPLE_RATE)])"

definition process_with_vad ::
  "collaborators \<Rightarrow> bytes \<Rightarrow> int \<Rightarrow> bool \<Rightarrow> bool \<Rightarrow> real \<Rightarrow> int \<Rightarrow> error + segment list" where
  "process_with_vad env pcm_data sample_rate is_int16 use_vad threshold mode =
     (if \<not> use_vad then whole_buffer_segment env pcm_data sample_rate is_int16
      else
        case (if is_int16 then frombuffer_int16 pcm_data
              else map_sum id (map (\<lambda>x. astype_int16 env (x * 32768))) (frombuffer_float32 env pcm_data)) of
          Inl e \<Rightarrow> Inl e
        | Inr pcm_int16 \<Rightarrow>
            (case default_vad_processor env sample_rate VAD_FRAME_SIZE mode threshold of
               Inl e \<Rightarrow> Inl e
             | Inr vad_processor \<Rightarrow>
                 if \<not> is_audio_loud_enough vad_processor pcm_int16
                 then whole_buffer_segment env pcm_data sample_rate is_int16
                 else process_audio env vad_processor pcm_int16 sample_rate))"

subsection \<open>Session state and requests\<close>

text \<open>One entry of \<^verbatim>\<open>audio_cache\<close>; the key \<^verbatim>\<open>language\<close> is absent until chunks are stored.\<close>

record session =
  audio_buffer :: bytes
  sample_rate :: int
  is_int16 :: bool
  processed_length :: real
  accumulated_chunks :: "chunk list"
  overlap_buffer :: bytes
  last_segment_start_time :: real
  language :: "string option"

type_synonym audio_cache = "string \<rightharpoonup> session"

text \<open>
  The entries of \<^verbatim>\<open>params\<close> that the two services read; \<open>p_action\<close> is
  \<^verbatim>\<open>params.get("action", "")\<close>.
\<close>

record params =
  p_language :: string
  p_sample_rate :: int
  p_is_int16 :: bool
  p_use_vad :: bool
  p_hallucinate_threshold :: real
  p_vad_mode :: int
  p_time_offset :: real
  p_task_id :: string
  p_clear_cache :: bool
  p_target_buffer_length :: real
  p_action :: string

text \<open>
  The JSON results of the streaming service. \<open>Error_exception\<close> is the result built
  from a caught exception, \<open>Error_message\<close> the one with a fixed message.
\<close>

datatype response =
    Cache_cleared
  | Completed string string                \<comment> \<open>content, message\<close>
  | Error_exception error
  | Error_message string
  | Buffering real                         \<comment> \<open>buffered\_seconds\<close>
  | Processing string nat nat              \<comment> \<open>content, current\_chunks, total\_chunks\<close>
  | No_speech_detected real real           \<comment> \<open>processed\_seconds, total\_processed\<close>

fun status :: "response \<Rightarrow> string" where
  "status Cache_cleared = ''cache_cleared''"
| "status (Completed content message) = ''completed''"
| "status (Error_exception e) = ''error''"
| "status (Error_message m) = ''error''"
| "status (Buffering buffered_seconds) = ''buffering''"
| "status (Processing content current_chunks total_chunks) = ''processing''"
| "status (No_speech_detected processed_seconds total_processed) = ''no_speech_detected''"

definition format_language :: "string \<Rightarrow> string" where
  "format_language language_code =
     (if prefix ''<|'' language_code \<and> suffix ''|>'' language_code then language_code
      else ''<|'' @ language_code @ ''|>'')"

subsection \<open>The file service\<close>

text \<open>
  The timestamp continuity correction of \<^verbatim>\<open>_execute_file_service\<close>. The loop state is
  \<^verbatim>\<open>(time_offset, last_chunk_end, output_text)\<close>; each line of \<^verbatim>\<open>output_text\<close> is kept
  as the record of its start, its end and its text.
\<close>

definition continuity_step :: "real \<times> real \<times> chunk list \<Rightarrow> chunk \<Rightarrow> real \<times> real \<times> chunk list" where
  "continuity_step st c =
     (case st of (time_offset, last_chunk_end, output_text) \<Rightarrow>
        let time_offset' = (if start_ts c < last_chunk_end - 0.5 then time_offset + last_chunk_end
                            else time_offset)
        in (time_offset', end_ts c,
            output_text @ [\<lparr>chunk_text = chunk_text c,
                             start_ts = start_ts c + time_offset',
                             end_ts = end_ts c + time_offset'\<rparr>]))"

definition continuity_loop :: "chunk list \<Rightarrow> real \<times> real \<times> chunk list" where
  "continuity_loop chunks = foldl continuity_step (0, 0, []) chunks"

definition execute_file_service :: "collaborators \<Rightarrow> bytes option \<Rightarrow> params \<Rightarrow> error + chunk list" where
  "execute_file_service env audio_data ps =
     (case audio_data of
        None \<Rightarrow> Inl (ValueError ''No audio data provided'')
      | Some data \<Rightarrow>
          (case load_audio env data of
             None \<Rightarrow> Inl AudioLoadError
           | Some audio_array \<Rightarrow>
               (case generate env audio_array (format_language (p_language ps)) of
                  None \<Rightarrow> Inl EngineError
                | Some chunks \<Rightarrow> Inr (snd (snd (continuity_loop chunks))))))"

subsection \<open>Finalization\<close>

datatype finalizer_result =
    Empty_buffer
  | Success string nat          \<comment> \<open>result, chunks\<close>
  | Finalizer_no_speech
  | Finalizer_error error

text \<open>The loop of \<^verbatim>\<open>_pipeline_finalizer\<close> over the segments.\<close>

fun finalizer_chunks :: "collaborators \<Rightarrow> string \<Rightarrow> segment list \<Rightarrow> error + chunk list" where
  "finalizer_chunks env lang [] = Inr []"
| "finalizer_chunks env lang (seg # rest) =
     (case seg of (seg_audio, seg_start, seg_end) \<Rightarrow>
        (case generate env seg_audio lang of
           None \<Rightarrow> Inl EngineError
         | Some result_chunks \<Rightarrow>
             (case finalizer_chunks env lang rest of
                Inl e \<Rightarrow> Inl e
              | Inr others \<Rightarrow>
                  Inr (map (\<lambda>c. \<lparr>chunk_text = chunk_text c,
                                  start_ts = start_ts c + seg_start,
                                  end_ts = end_ts c + seg_end\<rparr>) result_chunks @ others))))"

definition pipeline_finalizer ::
  "collaborators \<Rightarrow> bytes \<Rightarrow> int \<Rightarrow> bool \<Rightarrow> string \<Rightarrow> bool \<Rightarrow> finalizer_result" where
  "pipeline_finalizer env buffer sr i16 lang use_vad =
     (if buffer = [] then Empty_buffer
      else
        case process_with_vad env buffer sr i16 use_vad HALLUCINATE_THRESHOLD 3 of
          Inl e \<Rightarrow> Finalizer_error e
        | Inr audio_segments \<Rightarrow>
            (case finalizer_chunks env (format_language lang) audio_segments of
               Inl e \<Rightarrow> Finalizer_error e
             | Inr all_chunks \<Rightarrow>
                 if all_chunks \<noteq> [] then
                   (case create_srt_content all_chunks 0 of
                      Inl e \<Rightarrow> Finalizer_error e
                    | Inr output \<Rightarrow> Success output (length all_chunks))
                 else Finalizer_no_speech))"

text \<open>The buffer that \<^verbatim>\<open>_finalize_processing\<close> hands to the finalizer.\<close>

definition finalize_buffer :: "session \<Rightarrow> bytes" where
  "finalize_buffer c =
     (if overlap_buffer c \<noteq> [] then
        (if audio_buffer c \<noteq> [] then overlap_buffer c @ audio_buffer c else overlap_buffer c)
      else audio_buffer c)"

definition finalize_processing ::
  "collaborators \<Rightarrow> audio_cache \<Rightarrow> string \<Rightarrow> bool \<Rightarrow> error + response option" where
  "finalize_processing env cache session_id is_final_task =
     (case cache session_id of
        None \<Rightarrow> Inr None
      | Some c \<Rightarrow>
          let buffer = finalize_buffer c;
              language_code = (case language c of None \<Rightarrow> ''<|zh|>'' | Some lang \<Rightarrow> format_language lang);
              new_srt = (if buffer \<noteq> [] then
                           (case pipeline_finalizer env buffer (sample_rate c) (is_int16 c) language_code True of
                              Success output n \<Rightarrow> if 0 < n then Some output else None
                            | _ \<Rightarrow> None)
                         else None)
          in case new_srt of
               Some output \<Rightarrow> Inr (Some (Completed output ''Processing completed''))
             | None \<Rightarrow>
                 if accumulated_chunks c \<noteq> [] then
                   (case create_srt_content (accumulated_chunks c) 0 of
                      Inl e \<Rightarrow> Inl e
                    | Inr final_srt \<Rightarrow> Inr (Some (Completed final_srt ''Processing completed'')))
                 else Inr (Some (Completed [] ''Session processing completed, no valid transcription results'')))"

subsection \<open>The streaming service\<close>

text \<open>The loop of \<^verbatim>\<open>_execute_streaming_service\<close> over the segments to transcribe.\<close>

fun transcribe_segments ::
  "collaborators \<Rightarrow> string \<Rightarrow> real \<Rightarrow> real \<Rightarrow> segment list \<Rightarrow> error + chunk list" where
  "transcribe_segments env lang processed time_offset [] = Inr []"
| "transcribe_segments env lang processed time_offset (seg # rest) =
     (case seg of (seg_audio, seg_start, seg_end) \<Rightarrow>
        let abs_start = processed + time_offset + seg_start
        in (case generate env seg_audio lang of
              None \<Rightarrow> Inl EngineError
            | Some result_chunks \<Rightarrow>
                (case transcribe_segments env lang processed time_offset rest of
                   Inl e \<Rightarrow> Inl e
                 | Inr others \<Rightarrow>
                     Inr (map (\<lambda>c. \<lparr>chunk_text = chunk_text c,
                                     start_ts = start_ts c + abs_start,
                                     end_ts = end_ts c + abs_start\<rparr>) result_chunks @ others))))"

definition sample_width :: "bool \<Rightarrow> int" where
  "sample_width i16 = (if i16 then 2 else 4)"

text \<open>\<^verbatim>\<open>process_data\<close>: the buffer of a round, the overlap first.\<close>

definition process_data :: "session \<Rightarrow> bytes" where
  "process_data s =
     (if overlap_buffer s \<noteq> [] then overlap_buffer s @ audio_buffer s else audio_buffer s)"

text \<open>The byte offset at which the segment starting at \<open>last_start\<close> is cut off.\<close>

definition last_segment_start_sample :: "session \<Rightarrow> real \<Rightarrow> int" where
  "last_segment_start_sample s last_start =
     py_int (last_start * real_of_int (sample_rate s)) * sample_width (is_int16 s)"

text \<open>
  The retention step: unless the action is \<^verbatim>\<open>finish-task\<close>, the last segment is cut
  from \<open>data\<close> into \<^verbatim>\<open>overlap_buffer\<close> and removed from the segments to transcribe.
  The result is the session, the remaining segments and \<^verbatim>\<open>is_last_segment_incomplete\<close>.
\<close>

definition retain_last_segment ::
  "string \<Rightarrow> bytes \<Rightarrow> segment list \<Rightarrow> session \<Rightarrow> session \<times> segment list \<times> bool" where
  "retain_last_segment action data audio_segments s =
     (if action = ''finish-task'' then (s, audio_segments, False)
      else if audio_segments \<noteq> [] then
        (let last_start = fst (snd (last audio_segments))
         in (s\<lparr>overlap_buffer := py_slice_from data (last_segment_start_sample s last_start),
               last_segment_start_time := last_start\<rparr>,
             butlast audio_segments, True))
      else (s, audio_segments, False))"

text \<open>
  The part of \<^verbatim>\<open>_execute_streaming_service\<close> from the buffer status check to the end
  of the \<^verbatim>\<open>try\<close> block, on the session as it is after the new bytes were appended. An
  exception leaves the session as it was changed up to that point.
\<close>

definition streaming_round :: "collaborators \<Rightarrow> params \<Rightarrow> session \<Rightarrow> response \<times> session" where
  "streaming_round env ps s =
     (case check_buffer_status (audio_buffer s) (sample_rate s) (is_int16 s) (p_target_buffer_length ps) of
        Inl e \<Rightarrow> (Error_exception e, s)
      | Inr (buffer_duration, buffer_ready) \<Rightarrow>
          if \<not> buffer_ready \<and> p_action ps \<noteq> ''finish-task'' then (Buffering buffer_duration, s)
          else
            let data = process_data s;
                s1 = s\<lparr>audio_buffer := []\<rparr>
            in case process_with_vad env data (sample_rate s) (is_int16 s) (p_use_vad ps)
                      (p_hallucinate_threshold ps) (p_vad_mode ps) of
                 Inl e \<Rightarrow> (Error_exception e, s1)
               | Inr audio_segments \<Rightarrow>
                   (case retain_last_segment (p_action ps) data audio_segments s1 of
                      (s2, to_transcribe, is_last_segment_incomplete) \<Rightarrow>
                        (case transcribe_segments env (format_language (p_language ps))
                                (processed_length s) (p_time_offset ps) to_transcribe of
                           Inl e \<Rightarrow> (Error_exception e, s2)
                         | Inr current_chunks \<Rightarrow>
                             let effective_duration =
                                   (if is_last_segment_incomplete \<and> 0 < last_segment_start_time s2
                                    then last_segment_start_time s2 else buffer_duration);
                                 s3 = s2\<lparr>processed_length := processed_length s2 + effective_duration\<rparr>
                             in if current_chunks \<noteq> [] then
                                  (let s4 = s3\<lparr>language := Some (p_language ps),
                                               accumulated_chunks := accumulated_chunks s3 @ current_chunks\<rparr>
                                   in case create_srt_content (accumulated_chunks s4) 0 of
                                        Inl e \<Rightarrow> (Error_exception e, s4)
                                      | Inr output_content \<Rightarrow>
                                          (Processing output_content (length current_chunks)
                                             (length (accumulated_chunks s4)), s4))
                                else (No_speech_detected buffer_duration (processed_length s3), s3))))"

definition new_session :: "params \<Rightarrow> session" where
  "new_session ps =
     \<lparr>audio_buffer = [], sample_rate = p_sample_rate ps, is_int16 = p_is_int16 ps,
      processed_length = 0, accumulated_chunks = [], overlap_buffer = [],
      last_segment_start_time = 0, language = None\<rparr>"

text \<open>The session after the creation on a first call and the append of the new bytes.\<close>

definition append_audio :: "params \<Rightarrow> bytes \<Rightarrow> session option \<Rightarrow> session" where
  "append_audio ps audio_data cached =
     (let s = (case cached of None \<Rightarrow> new_session ps | Some c \<Rightarrow> c)
      in if audio_data \<noteq> [] then s\<lparr>audio_buffer := audio_buffer s @ audio_data\<rparr> else s)"

text \<open>
  \<^verbatim>\<open>_execute_streaming_service\<close>. The result is the value returned or the exception
  raised out of the method, and the cache after the call. The caller \<^verbatim>\<open>execute\<close>, which
  parses the request into \<^verbatim>\<open>params\<close> and answers an exception raised here with a result
  of status \<^verbatim>\<open>error\<close>, is not part of the model.
\<close>

definition execute_streaming_service ::
  "collaborators \<Rightarrow> bytes option \<Rightarrow> params \<Rightarrow> audio_cache \<Rightarrow> (error + response) \<times> audio_cache" where
  "execute_streaming_service env audio_data ps cache =
     (let session_id = p_task_id ps
      in if session_id = [] then
           (Inl (ValueError ''Must provide task_id parameter to identify session''), cache)
         else if p_clear_cache ps \<and> cache session_id \<noteq> None then
           (Inr Cache_cleared, cache(session_id := None))
         else if p_action ps = ''finish-task'' \<and> cache session_id \<noteq> None then
           (case finalize_processing env cache session_id True of
              Inl e \<Rightarrow> (Inl e, cache)
            | Inr (Some final_result) \<Rightarrow> (Inr final_result, cache)
            | Inr None \<Rightarrow>
                (Inr (Completed [] ''Session processing completed, no valid transcription results''), cache))
         else if (audio_data = None \<or> audio_data = Some []) \<and> cache session_id \<noteq> None then
           (case finalize_processing env cache session_id False of
              Inl e \<Rightarrow> (Inl e, cache)
            | Inr (Some final_result) \<Rightarrow> (Inr final_result, cache)
            | Inr None \<Rightarrow> (Inr (Completed [] ''Session processing completed''), cache))
         else
           case audio_data of
             None \<Rightarrow> (Inr (Error_message ''First call must provide audio data''), cache)
           | Some data \<Rightarrow>
               if data \<noteq> [] \<and> p_sample_rate ps * sample_width (p_is_int16 ps) = 0 then
                 (Inr (Error_exception ZeroDivisionError), cache)
               else
                 (case streaming_round env ps (append_audio ps data (cache session_id)) of
                    (result, s') \<Rightarrow> (Inr result, cache(session_id \<mapsto> s'))))"

section \<open>Notions used to state and prove the properties\<close>

subsection \<open>Loop invariants\<close>

text \<open>
  After \<open>n\<close> frames of the VAD loop: an open segment started at a frame that exists, it
  has counted at least one speech frame, and the frames it has counted and the silence
  after them fit between its start and \<open>n\<close>; every stored pair is non-empty, ends within
  the frames seen and spans at least \<open>min_speech_frames\<close> frames.
\<close>

definition vad_bounds :: "vad_processor \<Rightarrow> int \<Rightarrow> vad_state \<times> (int \<times> int) list \<Rightarrow> bool" where
  "vad_bounds vp n acc \<longleftrightarrow>
     (is_speech (fst acc) \<longrightarrow>
        0 \<le> speech_start_frame (fst acc) \<and> 1 \<le> speech_frame_count (fst acc)
        \<and> 0 \<le> silence_frames (fst acc)
        \<and> speech_start_frame (fst acc) + speech_frame_count (fst acc) + silence_frames (fst acc) \<le> n)
     \<and> (\<forall>se \<in> set (snd acc). 0 \<le> fst se \<and> fst se < snd se \<and> snd se \<le> n
            \<and> min_speech_frames vp \<le> snd se - fst se)"

text \<open>
  The stored pairs are in order and do not overlap; an open segment starts after all of
  them, and outside a segment the next possible pre-roll start is after all of them.
\<close>

definition vad_ordered :: "vad_processor \<Rightarrow> int \<Rightarrow> vad_state \<times> (int \<times> int) list \<Rightarrow> bool" where
  "vad_ordered vp n acc \<longleftrightarrow>
     sorted_wrt (\<lambda>a b. snd a \<le> fst b) (snd acc)
     \<and> (is_speech (fst acc) \<longrightarrow> (\<forall>se \<in> set (snd acc). snd se \<le> speech_start_frame (fst acc)))
     \<and> (\<not> is_speech (fst acc) \<longrightarrow> (\<forall>se \<in> set (snd acc). snd se + speech_pad_frames vp \<le> n))"

text \<open>An output line starts no earlier than half a second before the end of the line before it.\<close>

definition follows_within_tolerance :: "chunk \<Rightarrow> chunk \<Rightarrow> bool" where
  "follows_within_tolerance a b \<longleftrightarrow> end_ts a - 1 / 2 \<le> start_ts b"

text \<open>
  The state of the continuity loop: the accumulated offset plus the relative end of the
  last chunk is the absolute end of the last output line, and the lines follow each
  other within the tolerance.
\<close>

definition continuity_inv :: "real \<times> real \<times> chunk list \<Rightarrow> bool" where
  "continuity_inv st \<longleftrightarrow>
     (case st of (time_offset, last_chunk_end, output_text) \<Rightarrow>
        (output_text \<noteq> [] \<longrightarrow> end_ts (last output_text) = last_chunk_end + time_offset)
        \<and> successively follows_within_tolerance output_text)"

subsection \<open>Calls between two rounds\<close>


subsection \<open>Example collaborators and inputs\<close>

text \<open>
  Collaborators for the concrete runs: the VAD accepts the modes 0 to 3 and calls a frame
  speech when it has a non-zero sample, the engine answers every segment with one chunk
  from 0 to 1 second, and resampling is the identity.
\<close>

definition example_env :: collaborators where
  "example_env =
     \<lparr>vad_create = (\<lambda>mode. 0 \<le> mode \<and> mode \<le> 3),
      vad_is_speech = (\<lambda>mode frame sr. Some (list_ex (\<lambda>x. x \<noteq> 0) frame)),
      generate = (\<lambda>audio lang. Some [\<lparr>chunk_text = ''hello'', start_ts = 0, end_ts = 1\<rparr>]),
      resample = (\<lambda>audio sr. audio),
      float32_of_bytes = (\<lambda>b. 0),
      astype_int16 = (\<lambda>x. 0),
      load_audio = (\<lambda>data. Some [])\<rparr>"

text \<open>The processor that \<^verbatim>\<open>process_with_vad\<close> builds at 16 kHz, mode 3, threshold 100.\<close>

definition example_vp :: vad_processor where
  "example_vp =
     \<lparr>vp_sample_rate = 16000, vad_frame_size = 480, vad_mode = 3, min_speech_frames = 8,
      min_silence_frames = 16, speech_pad_frames = 13, hallucinate_threshold = 100\<rparr>"

text \<open>A processor with one-sample frames that pads by more than its minimum silence.\<close>

definition wide_pad_vp :: vad_processor where
  "wide_pad_vp =
     \<lparr>vp_sample_rate = 16000, vad_frame_size = 1, vad_mode = 3, min_speech_frames = 1,
      min_silence_frames = 1, speech_pad_frames = 2, hallucinate_threshold = 100\<rparr>"



text \<open>
  The same followed by eight more speech frames: as classifications, as samples, and as
  the little-endian bytes of these samples.
\<close>

definition two_utterances :: "bool list" where
  "two_utterances = replicate 8 True @ replicate 16 False @ replicate 8 True"

definition two_utterances_audio :: "int16 list" where
  "two_utterances_audio = replicate 3840 1000 @ replicate 7680 0 @ replicate 3840 1000"


text \<open>The requests and sessions of the scenario with three silent seconds.\<close>

definition scenario_params :: params where
  "scenario_params =
     \<lparr>p_language = ''zh'', p_sample_rate = 16000, p_is_int16 = True, p_use_vad = True,
      p_hallucinate_threshold = 100, p_vad_mode = 3, p_time_offset = 0, p_task_id = ''session-a'',
      p_clear_cache = False, p_target_buffer_length = 3, p_action = []\<rparr>"

definition eager_params :: params where
  "eager_params = scenario_params\<lparr>p_target_buffer_length := 0\<rparr>"

definition clear_params :: params where
  "clear_params = scenario_params\<lparr>p_clear_cache := True\<rparr>"


definition silent_second :: bytes where
  "silent_second = replicate 32000 0"

definition scenario_session :: "bytes \<Rightarrow> bytes \<Rightarrow> real \<Rightarrow> session" where
  "scenario_session buffer overlap processed =
     \<lparr>audio_buffer = buffer, sample_rate = 16000, is_int16 = True, processed_length = processed,
      accumulated_chunks = [], overlap_buffer = overlap, last_segment_start_time = 0,
      language = None\<rparr>"


definition no_sessions :: audio_cache where
  "no_sessions = Map.empty"

definition one_session :: "session \<Rightarrow> audio_cache" where
  "one_session s = [''session-a'' \<mapsto> s]"

text \<open>Engine output with two clock resets, and engine output that steps back by 0.3 s.\<close>

definition three_passes :: "chunk list" where
  "three_passes =
     [\<lparr>chunk_text = ''a'', start_ts = 0, end_ts = 10\<rparr>,
      \<lparr>chunk_text = ''b'', start_ts = 0, end_ts = 5\<rparr>,
      \<lparr>chunk_text = ''c'', start_ts = 0, end_ts = 3\<rparr>]"

definition small_step_back :: "chunk list" where
  "small_step_back =
     [\<lparr>chunk_text = ''a'', start_ts = 99 / 10, end_ts = 10\<rparr>,
      \<lparr>chunk_text = ''b'', start_ts = 96 / 10, end_ts = 11\<rparr>]"

section \<open>Properties\<close>

subsection \<open>Three silent seconds\<close>

lemma int16_items_zeros: "int16_items (replicate (2 * n) 0) = replicate n 0"
  by (induction n) simp_all

lemma frombuffer_int16_zeros: "frombuffer_int16 (replicate (2 * n) 0) = Inr (replicate n 0)"
  by (simp add: frombuffer_int16_def int16_items_zeros)

lemma zeros_not_loud:
  "0 \<le> hallucinate_threshold vp \<Longrightarrow> \<not> is_audio_loud_enough vp (replicate n 0)"
  by (simp add: is_audio_loud_enough_def abs_int16_def sum_list_replicate)

lemma whole_buffer_segment_zeros:
  "whole_buffer_segment env (replicate (2 * n) 0) 16000 True
     = Inr [(replicate n 0, 0, real n / 16000)]"
  by (simp add: whole_buffer_segment_def process_pcm_data_def frombuffer_int16_zeros
      int16_to_float_def TARGET_SAMPLE_RATE_def)

lemma process_with_vad_zeros:
  assumes "vad_create env mode" "0 \<le> threshold"
  shows "process_with_vad env (replicate (2 * n) 0) 16000 True True threshold mode
           = whole_buffer_segment env (replicate (2 * n) 0) 16000 True"
  using assms
  by (simp add: process_with_vad_def frombuffer_int16_zeros default_vad_processor_def
      EnhancedVadProcessor_def zeros_not_loud)

lemma scenario_call_1:
  "execute_streaming_service env (Some silent_second) scenario_params no_sessions
     = (Inr (Buffering 1), one_session (scenario_session (replicate 32000 0) [] 0))"
  by (simp add: execute_streaming_service_def scenario_params_def silent_second_def
      sample_width_def append_audio_def new_session_def streaming_round_def
      check_buffer_status_def calculate_pcm_duration_def scenario_session_def
      no_sessions_def one_session_def)

lemma scenario_call_2:
  "execute_streaming_service env (Some silent_second) scenario_params
       (one_session (scenario_session (replicate 32000 0) [] 0))
     = (Inr (Buffering 2), one_session (scenario_session (replicate 64000 0) [] 0))"
  by (simp add: execute_streaming_service_def scenario_params_def silent_second_def
      sample_width_def append_audio_def streaming_round_def
      check_buffer_status_def calculate_pcm_duration_def scenario_session_def
      replicate_add [symmetric] one_session_def)

lemma scenario_round_3:
  assumes "vad_create env 3"
  shows "streaming_round env scenario_params (scenario_session (replicate 96000 0) [] 0)
     = (No_speech_detected 3 3, scenario_session [] (replicate 96000 0) 3)"
proof -
  have pv: "process_with_vad env (replicate 96000 0) 16000 True True 100 3
          = Inr [(replicate 48000 0, 0, 3)]"
    using process_with_vad_zeros [OF assms, of 100 48000] whole_buffer_segment_zeros [of env 48000]
    by simp
  show ?thesis
    by (simp add: streaming_round_def scenario_params_def scenario_session_def
        check_buffer_status_def calculate_pcm_duration_def process_data_def pv
        retain_last_segment_def last_segment_start_sample_def py_int_def sample_width_def
        py_slice_from_def py_index_def)
qed

lemma scenario_call_3:
  assumes "vad_create env 3"
  shows "execute_streaming_service env (Some silent_second) scenario_params
       (one_session (scenario_session (replicate 64000 0) [] 0))
     = (Inr (No_speech_detected 3 3), one_session (scenario_session [] (replicate 96000 0) 3))"
proof -
  have "append_audio scenario_params silent_second (Some (scenario_session (replicate 64000 0) [] 0))
          = scenario_session (replicate 96000 0) [] 0"
    by (simp add: append_audio_def silent_second_def scenario_session_def replicate_add [symmetric])
  then show ?thesis
    using scenario_round_3 [OF assms]
    by (simp add: execute_streaming_service_def scenario_params_def silent_second_def sample_width_def
        one_session_def)
qed

lemma example_env_vad_create: "vad_create example_env 3"
  by (simp add: example_env_def)

subsection \<open>Two utterances\<close>

lemma default_vad_processor_example:
  "default_vad_processor example_env 16000 VAD_FRAME_SIZE 3 100 = Inr example_vp"
  by (simp add: default_vad_processor_def EnhancedVadProcessor_def example_env_def example_vp_def
      VAD_FRAME_SIZE_def TARGET_SAMPLE_RATE_def FRAME_DURATION_MS_def py_int_def)

lemma list_ex_replicate: "list_ex P (replicate n x) \<longleftrightarrow> 0 < n \<and> P x"
  by (auto simp: list_ex_iff)


lemma upt_32:
  "[0..<32] = [0, 1, 2, 3, 4, 5, 6, 7, 8, 9, 10, 11, 12, 13, 14, 15, 16, 17, 18, 19, 20, 21, 22, 23,
               24, 25, 26, 27, 28, 29, 30, 31]"
  by code_simp


lemma two_utterances_explicit:
  "two_utterances = [True, True, True, True, True, True, True, True,
    False, False, False, False, False, False, False, False,
    False, False, False, False, False, False, False, False,
    True, True, True, True, True, True, True, True]"
  by code_simp


lemma two_utterances_indices: "speech_segments_indices example_vp two_utterances = [(0, 8), (11, 32)]"
  by code_simp


lemma two_utterances_frames:
  "map (process_frame example_env example_vp) (split_frames example_vp two_utterances_audio)
     = two_utterances"
  unfolding two_utterances_explicit
  by (simp add: split_frames_def example_vp_def two_utterances_audio_def py_slice_def py_index_def
      process_frame_def example_env_def list_ex_replicate upt_32 Let_def)


lemma two_utterances_segments:
  "segment_audio example_env example_vp two_utterances_audio
     = Inr ([replicate 3840 (125 / 4096), replicate 6240 0 @ replicate 3840 (125 / 4096)],
            [(0, 24 / 100), (33 / 100, 96 / 100)])"
proof -
  have "py_slice two_utterances_audio 0 3840 = replicate 3840 1000"
    "py_slice two_utterances_audio 5280 15360 = replicate 6240 0 @ replicate 3840 1000"
    by (simp_all add: two_utterances_audio_def py_slice_def py_index_def)
  then show ?thesis
    using two_utterances_frames two_utterances_indices
    by (simp add: segment_audio_def Let_def frame_timestamp_def FRAME_DURATION_MS_def
        int16_to_float_def example_vp_def two_utterances_audio_def)
qed











subsection \<open>The silent scenario\<close>

text \<open>
  Claim C1. A session receives three 1-second chunks of silent int16 audio at 16 kHz, with
  a target buffer length of 3 seconds and the energy threshold 100. The first two calls
  answer \<^verbatim>\<open>buffering\<close> with 1 and 2 buffered seconds. On the third call the energy gate
  fails: the buffer is returned whole without frame segmentation, whatever the frame
  classifier and the engine would say; the call answers \<^verbatim>\<open>no_speech_detected\<close>, no
  chunk is stored, and the processed length of the session is 3 seconds afterwards.
\<close>

theorem scenario_A_silent_chunks:
  assumes "vad_create env 3"
  shows "let r1 = execute_streaming_service env (Some silent_second) scenario_params no_sessions;
             r2 = execute_streaming_service env (Some silent_second) scenario_params (snd r1);
             r3 = execute_streaming_service env (Some silent_second) scenario_params (snd r2)
         in fst r1 = Inr (Buffering 1) \<and> fst r2 = Inr (Buffering 2)
            \<and> fst r3 = Inr (No_speech_detected 3 3)
            \<and> process_with_vad env (replicate 96000 0) 16000 True True 100 3
                = whole_buffer_segment env (replicate 96000 0) 16000 True
            \<and> map_option processed_length (snd r3 ''session-a'') = Some 3
            \<and> map_option accumulated_chunks (snd r3 ''session-a'') = Some []"
  using scenario_call_1 [of env] scenario_call_2 [of env] scenario_call_3 [OF assms]
    process_with_vad_zeros [OF assms, of 100 48000]
  by (simp add: Let_def scenario_session_def one_session_def)

text \<open>The scenario with the example collaborators, whose VAD accepts mode 3.\<close>

theorem scenario_A_silent_chunks_witness:
  "vad_create example_env 3
   \<and> fst (execute_streaming_service example_env (Some silent_second) scenario_params no_sessions)
        = Inr (Buffering 1)
   \<and> fst (execute_streaming_service example_env (Some silent_second) scenario_params
            (one_session (scenario_session (replicate 32000 0) [] 0)))
        = Inr (Buffering 2)
   \<and> fst (execute_streaming_service example_env (Some silent_second) scenario_params
            (one_session (scenario_session (replicate 64000 0) [] 0)))
        = Inr (No_speech_detected 3 3)"
  using scenario_A_silent_chunks [of example_env] example_env_vad_create
    scenario_call_1 [of example_env] scenario_call_2 [of example_env]
  by (simp add: Let_def)

subsection \<open>The overlap buffer and the processed length\<close>

lemma retain_last_segment_overlap:
  assumes "action \<noteq> ''finish-task''" "audio_segments \<noteq> []"
  shows "retain_last_segment action data audio_segments s
     = (s\<lparr>overlap_buffer := py_slice_from data (last_segment_start_sample s (fst (snd (last audio_segments)))),
          last_segment_start_time := fst (snd (last audio_segments))\<rparr>,
        butlast audio_segments, True)"
  using assms by (simp add: retain_last_segment_def Let_def)

text \<open>
  A round that withholds a segment starting after time 0 and runs to its end advances the
  processed length by that start, and keeps the bytes of the buffer from that start on.
\<close>

lemma retained_tail_after_cut:
  assumes "p_action ps \<noteq> ''finish-task''"
    and "check_buffer_status (audio_buffer s) (sample_rate s) (is_int16 s) (p_target_buffer_length ps)
           = Inr (d, True)"
    and "process_with_vad env (process_data s) (sample_rate s) (is_int16 s) (p_use_vad ps)
           (p_hallucinate_threshold ps) (p_vad_mode ps) = Inr audio_segments"
    and "audio_segments \<noteq> []"
    and "0 < fst (snd (last audio_segments))"
    and "streaming_round env ps s = (r, s')"
    and "status r = ''processing'' \<or> status r = ''no_speech_detected''"
  shows "processed_length s' = processed_length s + fst (snd (last audio_segments))
       \<and> overlap_buffer s' = py_slice_from (process_data s)
            (last_segment_start_sample s (fst (snd (last audio_segments))))"
  using assms
  by (auto simp: streaming_round_def Let_def retain_last_segment_overlap last_segment_start_sample_def
      split: sum.splits if_splits)

text \<open>
  Claim C2. After a round that is not a finalization, a non-empty overlap buffer should
  hold exactly the bytes of the combined buffer from the offset of the round's effective
  duration on, the processed length having advanced by that duration. The third call of
  the silent scenario breaks this: the withheld segment starts at time 0, so the overlap
  buffer is the whole combined buffer of 96000 bytes, while the processed length advances
  by the full 3 seconds; the bytes from the offset of 3 seconds on are none.
\<close>

theorem scenario_A_overlap_before_cut:
  "execute_streaming_service example_env (Some silent_second) scenario_params
       (one_session (scenario_session (replicate 64000 0) [] 0))
     = (Inr (No_speech_detected 3 3), one_session (scenario_session [] (replicate 96000 0) 3))
   \<and> process_data (append_audio scenario_params silent_second
         (Some (scenario_session (replicate 64000 0) [] 0))) = replicate 96000 0
   \<and> overlap_buffer (scenario_session [] (replicate 96000 0) 3) = replicate 96000 0
   \<and> processed_length (scenario_session [] (replicate 96000 0) 3) = 3
   \<and> py_slice_from (replicate 96000 (0 :: 8 word))
        (last_segment_start_sample (scenario_session [] (replicate 96000 0) 3) 3) = []"
  using scenario_call_3 [OF example_env_vad_create]
  by (simp add: scenario_session_def process_data_def append_audio_def silent_second_def
      replicate_add [symmetric] py_slice_from_def py_index_def last_segment_start_sample_def
      py_int_def sample_width_def)

subsection \<open>Overlap continuity\<close>

text \<open>An ordinary streaming call is the round on the session with the new bytes appended.\<close>

lemma execute_streaming_service_round:
  assumes "p_task_id ps \<noteq> []"
    and "\<not> (p_clear_cache ps \<and> cache (p_task_id ps) \<noteq> None)"
    and "\<not> (p_action ps = ''finish-task'' \<and> cache (p_task_id ps) \<noteq> None)"
    and "data \<noteq> []" and "p_sample_rate ps \<noteq> 0"
  shows "execute_streaming_service env (Some data) ps cache
     = (Inr (fst (streaming_round env ps (append_audio ps data (cache (p_task_id ps))))),
        cache(p_task_id ps \<mapsto> snd (streaming_round env ps (append_audio ps data (cache (p_task_id ps))))))"
  using assms
  by (auto simp: execute_streaming_service_def Let_def sample_width_def split: prod.splits)







subsection \<open>Byte lengths that are not a multiple of the sample width\<close>

lemma frombuffer_int16_misaligned:
  assumes "int (length data) mod 2 \<noteq> 0"
  shows "frombuffer_int16 data = Inl BufferSizeError"
proof -
  have "length data mod 2 \<noteq> 0" using assms by presburger
  then show ?thesis by (simp add: frombuffer_int16_def)
qed

lemma frombuffer_float32_misaligned:
  assumes "int (length data) mod 4 \<noteq> 0"
  shows "frombuffer_float32 env data = Inl BufferSizeError"
proof -
  have "length data mod 4 \<noteq> 0" using assms by presburger
  then show ?thesis by (simp add: frombuffer_float32_def)
qed

lemma process_with_vad_misaligned:
  assumes "int (length data) mod sample_width i16 \<noteq> 0"
  shows "process_with_vad env data sr i16 use_vad thr mode = Inl BufferSizeError"
  using assms
  by (cases i16)
     (simp_all add: process_with_vad_def whole_buffer_segment_def process_pcm_data_def
        sample_width_def frombuffer_int16_misaligned frombuffer_float32_misaligned)

text \<open>
  Claim C4, as amended. A streaming call (no cache clear, no \<^verbatim>\<open>finish-task\<close>, sample
  rates not 0) brings bytes whose number is not a multiple of the sample width of the
  session, whose buffers so far are whole samples. The call is not refused for that: the
  bytes are appended to the pending buffer. Below the target length the call answers
  \<^verbatim>\<open>buffering\<close>. Otherwise the round fails with the buffer size error, answered with status
  \<^verbatim>\<open>error\<close>, and the pending buffer has been emptied by then; the overlap buffer, the
  processed length and the accumulated chunks are as before the call.
\<close>

theorem malformed_length_call:
  assumes sid: "p_task_id ps \<noteq> []" and ncl: "\<not> p_clear_cache ps"
    and act: "p_action ps \<noteq> ''finish-task''"
    and psr: "p_sample_rate ps \<noteq> 0"
    and s0: "s0 = (case cache (p_task_id ps) of None \<Rightarrow> new_session ps | Some c \<Rightarrow> c)"
    and sr: "sample_rate s0 \<noteq> 0"
    and al1: "int (length (audio_buffer s0)) mod sample_width (is_int16 s0) = 0"
    and al2: "int (length (overlap_buffer s0)) mod sample_width (is_int16 s0) = 0"
    and odd: "int (length data) mod sample_width (is_int16 s0) \<noteq> 0"
  shows "execute_streaming_service env (Some data) ps cache =
     (let s = s0\<lparr>audio_buffer := audio_buffer s0 @ data\<rparr>;
          buffer_duration = real_of_int (int (length (audio_buffer s)) div sample_width (is_int16 s0))
                              / real_of_int (sample_rate s0)
      in if buffer_duration < p_target_buffer_length ps
         then (Inr (Buffering buffer_duration), cache(p_task_id ps \<mapsto> s))
         else (Inr (Error_exception BufferSizeError), cache(p_task_id ps \<mapsto> s\<lparr>audio_buffer := []\<rparr>)))"
proof -
  let ?s = "s0\<lparr>audio_buffer := audio_buffer s0 @ data\<rparr>"
  from odd have data: "data \<noteq> []" by auto
  have app: "append_audio ps data (cache (p_task_id ps)) = ?s"
    using data by (simp add: append_audio_def s0 Let_def)
  have "int (length (process_data ?s)) mod sample_width (is_int16 ?s)
          = int (length data) mod sample_width (is_int16 s0)"
    using al1 al2
    by (auto simp: process_data_def mod_add_left_eq [symmetric] mod_add_eq [symmetric]
        simp del: mod_add_left_eq mod_add_eq)
  with odd have mis: "int (length (process_data ?s)) mod sample_width (is_int16 ?s) \<noteq> 0"
    by simp
  have pv: "process_with_vad env (process_data ?s) (sample_rate ?s) (is_int16 ?s) uv thr mode
              = Inl BufferSizeError" for uv thr mode
    using mis by (rule process_with_vad_misaligned)
  have round: "streaming_round env ps ?s =
     (let buffer_duration = real_of_int (int (length (audio_buffer ?s)) div sample_width (is_int16 s0))
                              / real_of_int (sample_rate s0)
      in if buffer_duration < p_target_buffer_length ps then (Buffering buffer_duration, ?s)
         else (Error_exception BufferSizeError, ?s\<lparr>audio_buffer := []\<rparr>))"
    using sr act pv
    by (simp add: streaming_round_def check_buffer_status_def calculate_pcm_duration_def Let_def
        sample_width_def not_less)
  show ?thesis
    using sid ncl act psr data
    by (simp add: execute_streaming_service_def app round Let_def sample_width_def)
qed

text \<open>A first call with one byte and a target length of 0: the round runs and fails.\<close>

theorem malformed_length_call_witness:
  "p_task_id eager_params \<noteq> [] \<and> \<not> p_clear_cache eager_params
   \<and> p_action eager_params \<noteq> ''finish-task'' \<and> p_sample_rate eager_params \<noteq> 0
   \<and> int (length [0 :: 8 word]) mod sample_width (is_int16 (new_session eager_params)) \<noteq> 0
   \<and> execute_streaming_service example_env (Some [0]) eager_params no_sessions
       = (Inr (Error_exception BufferSizeError), one_session (scenario_session [] [] 0))"
  using malformed_length_call [of eager_params "new_session eager_params" no_sessions "[0]" example_env]
  by (simp add: eager_params_def scenario_params_def new_session_def sample_width_def
      scenario_session_def Let_def no_sessions_def one_session_def)

text \<open>
  The claim as stated fails twice. A first call with one byte answers \<^verbatim>\<open>buffering\<close>
  and creates the session with that byte buffered. A call with 32001 bytes on a session
  holding two buffered seconds fails with the buffer size error, and the two seconds are
  gone from the session.
\<close>

theorem malformed_length_counterexample:
  "int (length [0 :: 8 word]) mod sample_width True \<noteq> 0
   \<and> execute_streaming_service example_env (Some [0]) scenario_params no_sessions
       = (Inr (Buffering 0), one_session (scenario_session [0] [] 0))
   \<and> int (length (replicate 32001 (0 :: 8 word))) mod sample_width True \<noteq> 0
   \<and> execute_streaming_service example_env (Some (replicate 32001 0)) scenario_params
         (one_session (scenario_session (replicate 64000 0) [] 0))
       = (Inr (Error_exception BufferSizeError), one_session (scenario_session [] [] 0))"
proof -
  have "execute_streaming_service example_env (Some [0]) scenario_params no_sessions
       = (Inr (Buffering 0), one_session (scenario_session [0] [] 0))"
    by (simp add: execute_streaming_service_def scenario_params_def
      sample_width_def append_audio_def new_session_def streaming_round_def
      check_buffer_status_def calculate_pcm_duration_def scenario_session_def
      no_sessions_def one_session_def)
  moreover have "execute_streaming_service example_env (Some (replicate 32001 0)) scenario_params
         (one_session (scenario_session (replicate 64000 0) [] 0))
       = (Inr (Error_exception BufferSizeError), one_session (scenario_session [] [] 0))"
    by (simp add: execute_streaming_service_def scenario_params_def
      sample_width_def append_audio_def streaming_round_def process_data_def
      check_buffer_status_def calculate_pcm_duration_def scenario_session_def
      replicate_add [symmetric] process_with_vad_misaligned one_session_def)
  ultimately show ?thesis by (simp add: sample_width_def)
qed

subsection \<open>Cache clear for an unknown session\<close>

lemma streaming_round_clear_flag:
  "streaming_round env (ps\<lparr>p_clear_cache := b\<rparr>) s = streaming_round env ps s"
  by (simp add: streaming_round_def Let_def split: sum.splits prod.splits)

lemma append_audio_clear_flag:
  "append_audio (ps\<lparr>p_clear_cache := b\<rparr>) data cached = append_audio ps data cached"
  by (simp add: append_audio_def new_session_def Let_def split: option.splits)

text \<open>
  Claim C5, as amended. A cache-clear request whose session id is not in the store is not
  handled as a cache clear. Without audio it leaves the store as it is and answers with
  status \<^verbatim>\<open>error\<close> and the message that a first call must provide audio data. With
  audio it is handled exactly as the same request without the clear flag.
\<close>

theorem clear_unknown_session:
  assumes "p_task_id ps \<noteq> []" and "p_clear_cache ps" and "cache (p_task_id ps) = None"
  shows "execute_streaming_service env None ps cache
           = (Inr (Error_message ''First call must provide audio data''), cache)
         \<and> execute_streaming_service env (Some data) ps cache
           = execute_streaming_service env (Some data) (ps\<lparr>p_clear_cache := False\<rparr>) cache"
  using assms
  by (simp add: execute_streaming_service_def Let_def streaming_round_clear_flag
      append_audio_clear_flag)

text \<open>The scenario's request with the clear flag set, on the empty store.\<close>

theorem clear_unknown_session_witness:
  "p_task_id clear_params \<noteq> [] \<and> p_clear_cache clear_params
   \<and> no_sessions (p_task_id clear_params) = None
   \<and> execute_streaming_service example_env None clear_params no_sessions
        = (Inr (Error_message ''First call must provide audio data''), no_sessions)
   \<and> execute_streaming_service example_env (Some silent_second) clear_params no_sessions
        = (Inr (Buffering 1), one_session (scenario_session (replicate 32000 0) [] 0))"
  using clear_unknown_session [of clear_params no_sessions example_env silent_second]
    scenario_call_1 [of example_env]
  by (simp add: clear_params_def scenario_params_def no_sessions_def)

text \<open>
  The claim as stated fails: on the empty store the request without audio is answered
  with status \<^verbatim>\<open>error\<close>, and the request with one silent second creates the session.
\<close>

theorem clear_unknown_session_counterexample:
  "p_clear_cache clear_params \<and> no_sessions (p_task_id clear_params) = None
   \<and> fst (execute_streaming_service example_env None clear_params no_sessions)
        = Inr (Error_message ''First call must provide audio data'')
   \<and> status (Error_message ''First call must provide audio data'') = ''error''
   \<and> snd (execute_streaming_service example_env (Some silent_second) clear_params no_sessions)
        ''session-a'' = Some (scenario_session (replicate 32000 0) [] 0)"
  by (simp add: clear_params_def execute_streaming_service_def scenario_params_def silent_second_def
      sample_width_def append_audio_def new_session_def streaming_round_def
      check_buffer_status_def calculate_pcm_duration_def scenario_session_def no_sessions_def)

subsection \<open>The VAD state machine\<close>

lemma vad_frame_step_bounds:
  assumes "0 \<le> speech_pad_frames vp" "0 \<le> n" "vad_bounds vp n acc"
  shows "vad_bounds vp (n + 1) (vad_frame_step vp n sp acc)"
  using assms
  by (cases acc) (auto simp: vad_bounds_def vad_frame_step_def Let_def)

lemma vad_frame_step_ordered:
  assumes "0 \<le> speech_pad_frames vp" "speech_pad_frames vp \<le> min_silence_frames vp" "0 \<le> n"
    "vad_bounds vp n acc" "vad_ordered vp n acc"
  shows "vad_ordered vp (n + 1) (vad_frame_step vp n sp acc)"
  using assms
  by (cases acc) (auto simp: vad_bounds_def vad_ordered_def vad_frame_step_def Let_def sorted_wrt_append)

lemma vad_loop_bounds:
  assumes "0 \<le> speech_pad_frames vp"
  shows "0 \<le> n \<Longrightarrow> vad_bounds vp n acc \<Longrightarrow> vad_bounds vp (n + int (length flags)) (vad_loop vp n flags acc)"
proof (induction flags arbitrary: n acc)
  case Nil
  then show ?case by simp
next
  case (Cons sp flags)
  have "vad_bounds vp (n + 1) (vad_frame_step vp n sp acc)"
    using assms Cons.prems by (rule vad_frame_step_bounds)
  then have "vad_bounds vp (n + 1 + int (length flags)) (vad_loop vp (n + 1) flags (vad_frame_step vp n sp acc))"
    using Cons.prems(1) by (intro Cons.IH) simp_all
  then show ?case by (simp add: ac_simps)
qed

lemma vad_loop_ordered:
  assumes "0 \<le> speech_pad_frames vp" "speech_pad_frames vp \<le> min_silence_frames vp"
  shows "0 \<le> n \<Longrightarrow> vad_bounds vp n acc \<Longrightarrow> vad_ordered vp n acc
     \<Longrightarrow> vad_ordered vp (n + int (length flags)) (vad_loop vp n flags acc)"
proof (induction flags arbitrary: n acc)
  case Nil
  then show ?case by simp
next
  case (Cons sp flags)
  have b: "vad_bounds vp (n + 1) (vad_frame_step vp n sp acc)"
    using assms(1) Cons.prems(1,2) by (rule vad_frame_step_bounds)
  have o: "vad_ordered vp (n + 1) (vad_frame_step vp n sp acc)"
    using assms Cons.prems by (rule vad_frame_step_ordered)
  have "vad_ordered vp (n + 1 + int (length flags)) (vad_loop vp (n + 1) flags (vad_frame_step vp n sp acc))"
    using Cons.prems(1) b o by (intro Cons.IH) simp_all
  then show ?case by (simp add: ac_simps)
qed

lemma vad_bounds_init: "vad_bounds vp 0 (reset_state, [])"
  by (simp add: vad_bounds_def reset_state_def)

lemma vad_ordered_init: "vad_ordered vp 0 (reset_state, [])"
  by (simp add: vad_ordered_def reset_state_def)

lemma indices_bounds:
  assumes "0 \<le> speech_pad_frames vp" "se \<in> set (speech_segments_indices vp flags)"
  shows "0 \<le> fst se \<and> fst se < snd se \<and> snd se \<le> int (length flags) \<and> min_speech_frames vp \<le> snd se - fst se"
proof -
  have "vad_bounds vp (0 + int (length flags)) (vad_loop vp 0 flags (reset_state, []))"
    using assms(1) by (intro vad_loop_bounds vad_bounds_init) simp_all
  then show ?thesis
    using assms(2)
    by (auto simp: speech_segments_indices_def Let_def vad_bounds_def split: if_splits)
qed

lemma indices_ordered:
  assumes "0 \<le> speech_pad_frames vp" "speech_pad_frames vp \<le> min_silence_frames vp"
  shows "sorted_wrt (\<lambda>a b. snd a \<le> fst b) (speech_segments_indices vp flags)"
proof -
  have "vad_ordered vp (0 + int (length flags)) (vad_loop vp 0 flags (reset_state, []))"
    using assms by (intro vad_loop_ordered vad_bounds_init vad_ordered_init) simp_all
  then show ?thesis
    by (auto simp: speech_segments_indices_def Let_def vad_ordered_def sorted_wrt_append)
qed

lemma segment_audio_timestamps:
  assumes "segment_audio env vp audio_data = Inr (segments, timestamps)"
  shows "timestamps = map frame_timestamp
            (speech_segments_indices vp (map (process_frame env vp) (split_frames vp audio_data)))
         \<or> (vp_sample_rate vp \<noteq> 0
             \<and> timestamps = [(0, real (length audio_data) / real_of_int (vp_sample_rate vp))])"
  using assms by (auto simp: segment_audio_def Let_def split: if_splits)


lemma overlapping_indices: "speech_segments_indices wide_pad_vp [True, False, True] = [(0, 1), (0, 3)]"
  by code_simp

lemma empty_buffer_fallback: "segment_audio example_env example_vp [] = Inr ([[]], [(0, 0)])"
  by code_simp

text \<open>
  Claim C6, as amended. For every buffer that is not empty, at a positive sample rate,
  and every processor whose padding is not negative and not more than its minimum
  silence (the default has 13 and 16 frames), the timestamps that \<^verbatim>\<open>segment_audio\<close>
  returns, the whole-buffer fallback included, are in order and do not overlap (each ends
  no later than the next starts), and each has its start before its end.
\<close>

theorem segment_audio_ordered_disjoint:
  assumes seg: "segment_audio env vp audio_data = Inr (segments, timestamps)"
    and pad: "0 \<le> speech_pad_frames vp" "speech_pad_frames vp \<le> min_silence_frames vp"
    and buf: "audio_data \<noteq> []" "0 < vp_sample_rate vp"
  shows "sorted_wrt (\<lambda>a b. snd a \<le> fst b) timestamps \<and> (\<forall>se \<in> set timestamps. fst se < snd se)"
proof -
  let ?ix = "speech_segments_indices vp (map (process_frame env vp) (split_frames vp audio_data))"
  from segment_audio_timestamps [OF seg]
  consider (automaton) "timestamps = map frame_timestamp ?ix"
    | (fallback) "timestamps = [(0, real (length audio_data) / real_of_int (vp_sample_rate vp))]"
    by blast
  then show ?thesis
  proof cases
    case automaton
    have "sorted_wrt (\<lambda>a b. snd a \<le> fst b) ?ix"
      using pad by (rule indices_ordered)
    then have "sorted_wrt (\<lambda>a b. snd (frame_timestamp a) \<le> fst (frame_timestamp b)) ?ix"
      by (rule sorted_wrt_mono_rel [rotated]) (simp add: frame_timestamp_def FRAME_DURATION_MS_def)
    moreover have "fst (frame_timestamp se) < snd (frame_timestamp se)" if "se \<in> set ?ix" for se
      using indices_bounds [OF pad(1) that] by (simp add: frame_timestamp_def FRAME_DURATION_MS_def)
    ultimately show ?thesis
      by (simp add: automaton sorted_wrt_map)
  next
    case fallback
    then show ?thesis using buf by simp
  qed
qed

text \<open>The default processor on the two utterances: two segments, 90 ms apart.\<close>

theorem segment_audio_ordered_disjoint_witness:
  "segment_audio example_env example_vp two_utterances_audio
     = Inr ([replicate 3840 (125 / 4096), replicate 6240 0 @ replicate 3840 (125 / 4096)],
            [(0, 24 / 100), (33 / 100, 96 / 100)])
   \<and> 0 \<le> speech_pad_frames example_vp \<and> speech_pad_frames example_vp \<le> min_silence_frames example_vp
   \<and> two_utterances_audio \<noteq> [] \<and> 0 < vp_sample_rate example_vp
   \<and> snd (0 :: real, 24 / 100 :: real) \<le> fst (33 / 100 :: real, 96 / 100 :: real)
   \<and> fst (0 :: real, 24 / 100 :: real) < snd (0 :: real, 24 / 100 :: real)
   \<and> fst (33 / 100 :: real, 96 / 100 :: real) < snd (33 / 100 :: real, 96 / 100 :: real)"
  using segment_audio_ordered_disjoint [OF two_utterances_segments] two_utterances_segments
  by (simp add: example_vp_def two_utterances_audio_def)

text \<open>
  The claim as stated fails for the empty buffer, where the default processor returns the
  fallback segment from 0 to 0, and for a processor that pads by more than its minimum
  silence, where the second segment starts before the first one ends.
\<close>

theorem segment_audio_ordered_disjoint_counterexample:
  "default_vad_processor example_env 16000 VAD_FRAME_SIZE 3 100 = Inr example_vp
   \<and> segment_audio example_env example_vp [] = Inr ([[]], [(0, 0)])
   \<and> \<not> fst (0 :: real, 0 :: real) < snd (0 :: real, 0 :: real)
   \<and> speech_segments_indices wide_pad_vp [True, False, True] = [(0, 1), (0, 3)]
   \<and> fst (frame_timestamp (0, 3)) < snd (frame_timestamp (0, 1))"
  using default_vad_processor_example empty_buffer_fallback overlapping_indices
  by (simp add: frame_timestamp_def FRAME_DURATION_MS_def)





subsection \<open>Timestamps of the transcript chunks\<close>

text \<open>
  In a streaming round every chunk is the engine's chunk moved by the processed length
  before the round, the time offset of the request and the start of its segment.
\<close>

lemma transcribe_segments_formula:
  "transcribe_segments env lang processed time_offset segs = Inr cs \<Longrightarrow> c \<in> set cs \<Longrightarrow>
     \<exists>seg \<in> set segs. \<exists>result_chunks rc.
        generate env (fst seg) lang = Some result_chunks \<and> rc \<in> set result_chunks
        \<and> chunk_text c = chunk_text rc
        \<and> start_ts c = processed + time_offset + fst (snd seg) + start_ts rc
        \<and> end_ts c = processed + time_offset + fst (snd seg) + end_ts rc"
proof (induction segs arbitrary: cs)
  case Nil
  then show ?case by simp
next
  case (Cons seg rest)
  obtain seg_audio seg_start seg_end where seg: "seg = (seg_audio, seg_start, seg_end)"
    by (cases seg) auto
  from Cons.prems(1) obtain result_chunks others where
    g: "generate env seg_audio lang = Some result_chunks"
    and r: "transcribe_segments env lang processed time_offset rest = Inr others"
    and cs: "cs = map (\<lambda>c. \<lparr>chunk_text = chunk_text c,
                             start_ts = start_ts c + (processed + time_offset + seg_start),
                             end_ts = end_ts c + (processed + time_offset + seg_start)\<rparr>) result_chunks @ others"
    by (auto simp: seg Let_def split: option.splits sum.splits)
  from Cons.prems(2) cs consider
    (head) rc where "rc \<in> set result_chunks"
      "c = \<lparr>chunk_text = chunk_text rc, start_ts = start_ts rc + (processed + time_offset + seg_start),
            end_ts = end_ts rc + (processed + time_offset + seg_start)\<rparr>"
    | (tail) "c \<in> set others"
    by auto
  then show ?case
  proof cases
    case head
    then show ?thesis using g by (auto simp: seg intro!: exI [of _ result_chunks] exI [of _ rc])
  next
    case tail
    from Cons.IH [OF r tail] show ?thesis by auto
  qed
qed

lemma streaming_round_chunks:
  assumes "streaming_round env ps s = (r, s')" and "status r = ''processing''"
  shows "\<exists>segs cs. transcribe_segments env (format_language (p_language ps)) (processed_length s)
                      (p_time_offset ps) segs = Inr cs
                   \<and> accumulated_chunks s' = accumulated_chunks s @ cs"
  using assms
  by (auto simp: streaming_round_def Let_def retain_last_segment_def
      split: sum.splits prod.splits if_splits)

text \<open>
  In the finalizer every chunk starts at the engine's start moved by the start of its
  segment only, and ends at the engine's end moved by the end of its segment.
\<close>

lemma finalizer_chunks_formula:
  "finalizer_chunks env lang segs = Inr cs \<Longrightarrow> c \<in> set cs \<Longrightarrow>
     \<exists>seg \<in> set segs. \<exists>result_chunks rc.
        generate env (fst seg) lang = Some result_chunks \<and> rc \<in> set result_chunks
        \<and> chunk_text c = chunk_text rc
        \<and> start_ts c = fst (snd seg) + start_ts rc
        \<and> end_ts c = snd (snd seg) + end_ts rc"
proof (induction segs arbitrary: cs)
  case Nil
  then show ?case by simp
next
  case (Cons seg rest)
  obtain seg_audio seg_start seg_end where seg: "seg = (seg_audio, seg_start, seg_end)"
    by (cases seg) auto
  from Cons.prems(1) obtain result_chunks others where
    g: "generate env seg_audio lang = Some result_chunks"
    and r: "finalizer_chunks env lang rest = Inr others"
    and cs: "cs = map (\<lambda>c. \<lparr>chunk_text = chunk_text c, start_ts = start_ts c + seg_start,
                             end_ts = end_ts c + seg_end\<rparr>) result_chunks @ others"
    by (auto simp: seg split: option.splits sum.splits)
  from Cons.prems(2) cs consider
    (head) rc where "rc \<in> set result_chunks"
      "c = \<lparr>chunk_text = chunk_text rc, start_ts = start_ts rc + seg_start, end_ts = end_ts rc + seg_end\<rparr>"
    | (tail) "c \<in> set others"
    by auto
  then show ?case
  proof cases
    case head
    then show ?thesis using g by (auto simp: seg intro!: exI [of _ result_chunks] exI [of _ rc])
  next
    case tail
    from Cons.IH [OF r tail] show ?thesis by auto
  qed
qed

lemma srt_hello_0_4:
  "create_srt_content [\<lparr>chunk_text = ''hello'', start_ts = 0, end_ts = 4\<rparr>] 0
     = Inr (''1'' @ [CHR 0x0A] @ ''00:00:00,000 --> 00:00:04,000'' @ [CHR 0x0A] @ ''hello'' @ [CHR 0x0A])"
  by code_simp

lemma srt_hello_0_2:
  "create_srt_content [\<lparr>chunk_text = ''hello'', start_ts = 0, end_ts = 2\<rparr>] 0
     = Inr (''1'' @ [CHR 0x0A] @ ''00:00:00,000 --> 00:00:02,000'' @ [CHR 0x0A] @ ''hello'' @ [CHR 0x0A])"
  by code_simp

lemma pipeline_finalizer_zeros:
  "pipeline_finalizer example_env (replicate (2 * Suc n) 0) 16000 True lang True
     = (case create_srt_content
               [\<lparr>chunk_text = ''hello'', start_ts = 0, end_ts = 1 + real (Suc n) / 16000\<rparr>] 0 of
          Inl e \<Rightarrow> Finalizer_error e
        | Inr output \<Rightarrow> Success output 1)"
proof -
  have "process_with_vad example_env (replicate (2 * Suc n) 0) 16000 True True HALLUCINATE_THRESHOLD 3
          = Inr [(replicate (Suc n) 0, 0, real (Suc n) / 16000)]"
    using process_with_vad_zeros [OF example_env_vad_create, of 100 "Suc n"]
      whole_buffer_segment_zeros [of example_env "Suc n"]
    by (simp add: HALLUCINATE_THRESHOLD_def)
  moreover have "generate example_env a l = Some [\<lparr>chunk_text = ''hello'', start_ts = 0, end_ts = 1\<rparr>]" for a l
    by (simp add: example_env_def)
  ultimately show ?thesis
    by (simp add: pipeline_finalizer_def split: sum.splits)
qed

text \<open>
  Claim C8. Every chunk should start at the processed length before the round plus the
  time offset plus the start of its segment plus its relative start, and end at the same
  sum with its relative end, in finalize processing as in a streaming round. The
  finalizer does not do this. After the three silent seconds (processed length 3), an
  empty call finalizes the withheld 3 seconds; the engine's chunk from 0 to 1 is returned
  from 0 to 4, where the formula gives 3 to 4. After one silent second only (processed
  length 0), the chunk is returned from 0 to 2, where the formula gives 0 to 1.
\<close>

theorem finalizer_timestamps_relative:
  "execute_streaming_service example_env (Some []) scenario_params
       (one_session (scenario_session [] (replicate 96000 0) 3))
     = (Inr (Completed (''1'' @ [CHR 0x0A] @ ''00:00:00,000 --> 00:00:04,000'' @ [CHR 0x0A]
                         @ ''hello'' @ [CHR 0x0A]) ''Processing completed''),
        one_session (scenario_session [] (replicate 96000 0) 3))
   \<and> finalizer_chunks example_env ''<|zh|>'' [(replicate 48000 0, 0, 3)]
     = Inr [\<lparr>chunk_text = ''hello'', start_ts = 0, end_ts = 4\<rparr>]
   \<and> execute_streaming_service example_env (Some []) scenario_params
       (one_session (scenario_session (replicate 32000 0) [] 0))
     = (Inr (Completed (''1'' @ [CHR 0x0A] @ ''00:00:00,000 --> 00:00:02,000'' @ [CHR 0x0A]
                         @ ''hello'' @ [CHR 0x0A]) ''Processing completed''),
        one_session (scenario_session (replicate 32000 0) [] 0))
   \<and> finalizer_chunks example_env ''<|zh|>'' [(replicate 16000 0, 0, 1)]
     = Inr [\<lparr>chunk_text = ''hello'', start_ts = 0, end_ts = 2\<rparr>]"
proof -
  have f3: "pipeline_finalizer example_env (replicate 96000 0) 16000 True ''<|zh|>'' True
      = Success (''1'' @ [CHR 0x0A] @ ''00:00:00,000 --> 00:00:04,000'' @ [CHR 0x0A]
                         @ ''hello'' @ [CHR 0x0A]) 1"
    using pipeline_finalizer_zeros [of 47999 "''<|zh|>''"] srt_hello_0_4 by simp
  have f1: "pipeline_finalizer example_env (replicate 32000 0) 16000 True ''<|zh|>'' True
      = Success (''1'' @ [CHR 0x0A] @ ''00:00:00,000 --> 00:00:02,000'' @ [CHR 0x0A]
                         @ ''hello'' @ [CHR 0x0A]) 1"
    using pipeline_finalizer_zeros [of 15999 "''<|zh|>''"] srt_hello_0_2 by simp
  have g: "generate example_env a l = Some [\<lparr>chunk_text = ''hello'', start_ts = 0, end_ts = 1\<rparr>]" for a l
    by (simp add: example_env_def)
  show ?thesis
    by (simp add: execute_streaming_service_def scenario_params_def scenario_session_def
        finalize_processing_def finalize_buffer_def f3 f1 g one_session_def)
qed

subsection \<open>Timestamp continuity in the file service\<close>

lemma continuity_step_inv:
  assumes "continuity_inv st" "0 \<le> start_ts c"
  shows "continuity_inv (continuity_step st c)"
  using assms
  by (cases st)
     (auto simp: continuity_inv_def continuity_step_def Let_def successively_append_iff
        follows_within_tolerance_def)

lemma continuity_foldl_inv:
  "continuity_inv st \<Longrightarrow> \<forall>c \<in> set chunks. 0 \<le> start_ts c \<Longrightarrow> continuity_inv (foldl continuity_step st chunks)"
  by (induction chunks arbitrary: st) (simp_all add: continuity_step_inv)

lemma continuity_inv_init: "continuity_inv (0, 0, [])"
  by (simp add: continuity_inv_def)

lemma continuity_step_last_end:
  assumes "output_text \<noteq> [] \<longrightarrow> end_ts (last output_text) = last_chunk_end + time_offset"
    and "continuity_step (time_offset, last_chunk_end, output_text) c = (time_offset', last_chunk_end', output_text')"
  shows "output_text' \<noteq> [] \<and> end_ts (last output_text') = last_chunk_end' + time_offset'"
  using assms by (auto simp: continuity_step_def Let_def)

lemma continuity_foldl_last_end:
  assumes "output_text \<noteq> [] \<longrightarrow> end_ts (last output_text) = last_chunk_end + time_offset"
    and "foldl continuity_step (time_offset, last_chunk_end, output_text) chunks
           = (time_offset', last_chunk_end', output_text')"
  shows "output_text' \<noteq> [] \<longrightarrow> end_ts (last output_text') = last_chunk_end' + time_offset'"
  using assms
proof (induction chunks arbitrary: time_offset last_chunk_end output_text)
  case Nil
  then show ?case by simp
next
  case (Cons c chunks)
  obtain a b d where step: "continuity_step (time_offset, last_chunk_end, output_text) c = (a, b, d)"
    by (cases "continuity_step (time_offset, last_chunk_end, output_text) c") auto
  from continuity_step_last_end [OF Cons.prems(1) step]
  have "d \<noteq> [] \<longrightarrow> end_ts (last d) = b + a" by simp
  moreover from Cons.prems(2) step
  have "foldl continuity_step (a, b, d) chunks = (time_offset', last_chunk_end', output_text')"
    by simp
  ultimately show ?case by (rule Cons.IH)
qed

text \<open>
  Claim C9, as amended. In the state that the loop of the file service has reached after
  any chunks, a chunk whose relative start is more than 0.5 s before the relative end of
  the chunk before it increases the accumulated offset by that relative end, and no other
  chunk changes the offset; the offset plus that relative end is the absolute end of the
  line before, so after the increase the offset is that absolute end. When no relative
  start is negative, every output line starts no earlier than 0.5 s before the end of the
  line before it.
\<close>

theorem continuity_offset_and_timeline:
  assumes "continuity_loop earlier = (time_offset, last_chunk_end, output_text)"
  shows "fst (continuity_step (time_offset, last_chunk_end, output_text) c)
           = (if start_ts c < last_chunk_end - 1 / 2 then time_offset + last_chunk_end else time_offset)
       \<and> (output_text \<noteq> [] \<longrightarrow> time_offset + last_chunk_end = end_ts (last output_text))
       \<and> ((\<forall>c \<in> set chunks. 0 \<le> start_ts c) \<longrightarrow>
            successively follows_within_tolerance (snd (snd (continuity_loop chunks))))"
proof -
  have "continuity_inv (continuity_loop chunks)" if "\<forall>c \<in> set chunks. 0 \<le> start_ts c"
    unfolding continuity_loop_def using continuity_inv_init that by (rule continuity_foldl_inv)
  moreover have "output_text \<noteq> [] \<longrightarrow> end_ts (last output_text) = last_chunk_end + time_offset"
    using continuity_foldl_last_end [of "[]" 0 0 earlier time_offset last_chunk_end output_text] assms
    by (simp add: continuity_loop_def)
  ultimately show ?thesis
    by (auto simp: continuity_step_def continuity_inv_def Let_def split: prod.splits)
qed

lemma three_passes_loop:
  "continuity_loop three_passes =
     (15, 3, [\<lparr>chunk_text = ''a'', start_ts = 0, end_ts = 10\<rparr>,
              \<lparr>chunk_text = ''b'', start_ts = 10, end_ts = 15\<rparr>,
              \<lparr>chunk_text = ''c'', start_ts = 15, end_ts = 18\<rparr>])"
  by (simp add: continuity_loop_def three_passes_def continuity_step_def)

lemma two_passes_loop:
  "continuity_loop (butlast three_passes) =
     (10, 5, [\<lparr>chunk_text = ''a'', start_ts = 0, end_ts = 10\<rparr>,
              \<lparr>chunk_text = ''b'', start_ts = 10, end_ts = 15\<rparr>])"
  by (simp add: continuity_loop_def three_passes_def continuity_step_def)

lemma small_step_back_loop:
  "continuity_loop small_step_back =
     (0, 11, [\<lparr>chunk_text = ''a'', start_ts = 99 / 10, end_ts = 10\<rparr>,
              \<lparr>chunk_text = ''b'', start_ts = 96 / 10, end_ts = 11\<rparr>])"
  by (simp add: continuity_loop_def small_step_back_def continuity_step_def)

text \<open>The third chunk of three passes: the offset goes from 10 to 15.\<close>

theorem continuity_offset_and_timeline_witness:
  "continuity_loop (butlast three_passes) =
     (10, 5, [\<lparr>chunk_text = ''a'', start_ts = 0, end_ts = 10\<rparr>,
              \<lparr>chunk_text = ''b'', start_ts = 10, end_ts = 15\<rparr>])
   \<and> fst (continuity_step (10, 5, [\<lparr>chunk_text = ''a'', start_ts = 0, end_ts = 10\<rparr>,
              \<lparr>chunk_text = ''b'', start_ts = 10, end_ts = 15\<rparr>])
            \<lparr>chunk_text = ''c'', start_ts = 0, end_ts = 3\<rparr>) = 15
   \<and> successively follows_within_tolerance (snd (snd (continuity_loop three_passes)))"
  using continuity_offset_and_timeline [OF two_passes_loop,
      of "\<lparr>chunk_text = ''c'', start_ts = 0, end_ts = 3\<rparr>" three_passes]
    two_passes_loop
  by (simp add: three_passes_def)

text \<open>
  The claim as stated fails twice. At the second reset of three passes the offset is 10
  and the absolute end of the line before is 15; the offset becomes 15, not 25. And two
  chunks of one pass that step back by 0.3 s give the output starts 9.9 and 9.6.
\<close>

theorem continuity_counterexample:
  "continuity_loop (butlast three_passes) =
     (10, 5, [\<lparr>chunk_text = ''a'', start_ts = 0, end_ts = 10\<rparr>,
              \<lparr>chunk_text = ''b'', start_ts = 10, end_ts = 15\<rparr>])
   \<and> fst (continuity_loop three_passes) = 10 + 5
   \<and> fst (continuity_loop three_passes) \<noteq> 10 + 15
   \<and> map start_ts (snd (snd (continuity_loop small_step_back))) = [99 / 10, 96 / 10]
   \<and> (96 / 10 :: real) < 99 / 10"
  using two_passes_loop three_passes_loop small_step_back_loop by simp

subsection \<open>Caption times wrap at 24 hours\<close>









end
